theory Spec2Isabelle
  imports Complex_Main "HOL-Library.AList"
begin

section \<open>Trading journal backend (src/main.py)\<close>

text \<open>
  A shallow embedding of the FastAPI application in \<^verbatim>\<open>src/main.py\<close>: the two tables,
  the request schemas, the security helpers, the guard \<^verbatim>\<open>get_current_user\<close> and the five
  API routes. The database session is an explicit state (a record of the two tables) that
  each route takes and returns; a raised exception is the left summand of the result.
\<close>

subsection \<open>Security configuration\<close>

definition SECRET_KEY :: string where
  "SECRET_KEY = ''cheia-ta-secreta-foarte-lunga-si-sigura''"

definition ALGORITHM :: string where
  "ALGORITHM = ''HS256''"

definition ACCESS_TOKEN_EXPIRE_MINUTES :: int where
  "ACCESS_TOKEN_EXPIRE_MINUTES = 60"

subsection \<open>Tables and request schemas\<close>

text \<open>
  The column \<^verbatim>\<open>id\<close> of both tables is written \<open>u_id\<close> and \<open>t_id\<close> (\<open>id\<close> is the identity
  function of HOL). \<^verbatim>\<open>TradeDB\<close> has the eight columns of \<^verbatim>\<open>TradeSchema\<close> and, in addition,
  its primary key and the foreign key \<^verbatim>\<open>owner_id\<close>; it is the record extension of the schema.
  The column \<^verbatim>\<open>pl\<close> is a float that the program only stores and returns; it is a real here.
\<close>

record UserLogin =
  username :: string
  password :: string

record UserDB =
  u_id :: int
  username :: string
  hashed_password :: string

record TradeSchema =
  date :: string
  pair :: string
  direction :: string
  risk :: string
  rr :: string
  pl :: real
  obs :: string
  link :: string

record TradeDB = TradeSchema +
  t_id :: int
  owner_id :: int

text \<open>The session: the rows of \<^verbatim>\<open>users\<close> and of \<^verbatim>\<open>trades\<close>, in insertion order.\<close>

record database =
  users :: "UserDB list"
  trades :: "TradeDB list"

text \<open>
  Both \<^verbatim>\<open>id\<close> columns are declared \<^verbatim>\<open>primary_key=True\<close> and \<^verbatim>\<open>username\<close> is declared
  \<^verbatim>\<open>unique=True\<close>: the storage engine keeps them free of duplicates.
\<close>

definition primary_keys :: "database \<Rightarrow> bool" where
  "primary_keys db = (distinct (map u_id (users db)) \<and> distinct (map t_id (trades db)))"

definition unique_usernames :: "database \<Rightarrow> bool" where
  "unique_usernames db = distinct (map UserDB.username (users db))"

text \<open>
  An integer primary key that the program leaves unset is assigned by SQLite on insert:
  one more than the largest key of the table, 1 for an empty table (keys are positive).
\<close>

definition next_id :: "int list \<Rightarrow> int" where
  "next_id ids = foldr max ids 0 + 1"

text \<open>
  A key is a SQLite \<^verbatim>\<open>INTEGER\<close>, a signed 64-bit number: every stored key is one, and an
  integer outside that range cannot be bound to a query (\<^verbatim>\<open>OverflowError\<close>).
\<close>

definition sqlite_integer :: "int \<Rightarrow> bool" where
  "sqlite_integer i = (- (2 ^ 63) \<le> i \<and> i < 2 ^ 63)"

text \<open>\<^verbatim>\<open>Query.first()\<close>: the first row of the result, or \<^verbatim>\<open>None\<close>.\<close>

fun first :: "'a list \<Rightarrow> 'a option" where
  "first [] = None"
| "first (x # xs) = Some x"

subsection \<open>Exceptions and responses\<close>

text \<open>
  The exceptions that the program raises itself (\<^verbatim>\<open>HTTPException\<close>, with its status code and
  its detail when one is given) and those that reach it from Python and from the two
  libraries \<^verbatim>\<open>jose\<close> and \<^verbatim>\<open>passlib\<close>.
\<close>

datatype exception =
    HTTPException (status_code: int) (detail: "string option")
  | IndexError
  | TypeError
  | JWTError
  | ExpiredSignatureError
  | JWTClaimsError
  | UnknownHashError
  | ValueError
  | OverflowError

text \<open>A route returns a dictionary of strings, or the rows of a query.\<close>

datatype response =
    Dict "(string \<times> string) list"
  | Rows "TradeDB list"


subsection \<open>The trade routes\<close>

text \<open>
  \<^verbatim>\<open>create_trade\<close> (lines 151-157): \<^verbatim>\<open>TradeDB(**trade.dict(), owner_id=current_user.id)\<close>
  copies the eight fields of the schema and sets \<^verbatim>\<open>owner_id\<close> from the user that the guard
  resolved; the insert assigns the key.
\<close>

definition create_trade :: "TradeSchema \<Rightarrow> database \<Rightarrow> UserDB \<Rightarrow> database \<times> response" where
  "create_trade trade db current_user =
     (let db_trade = \<lparr>date = date trade, pair = pair trade, direction = direction trade,
                       risk = risk trade, rr = rr trade, pl = pl trade, obs = obs trade,
                       link = link trade,
                       t_id = next_id (map t_id (trades db)),
                       owner_id = u_id current_user\<rparr>
      in (db\<lparr>trades := trades db @ [db_trade]\<rparr>, Dict [(''status'', ''success'')]))"

text \<open>\<^verbatim>\<open>read_trades\<close> (lines 160-164): the rows whose \<^verbatim>\<open>owner_id\<close> is the caller's id.\<close>

definition read_trades :: "database \<Rightarrow> UserDB \<Rightarrow> TradeDB list" where
  "read_trades db current_user =
     (let rows = filter (\<lambda>t. owner_id t = u_id current_user) (trades db)
      in rows)"

text \<open>
  \<^verbatim>\<open>delete_trade\<close> (lines 167-174). The path parameter \<^verbatim>\<open>trade_id: int\<close> is any integer the
  client writes; the query binds it, and one that is not a signed 64-bit number cannot be
  bound: the query raises \<^verbatim>\<open>OverflowError\<close> and nothing is deleted. Otherwise the first row
  with the given key and the caller's id as owner, if there is one, is deleted (by its
  key); the response is the same dictionary on both paths.
\<close>

definition delete_trade :: "int \<Rightarrow> database \<Rightarrow> UserDB \<Rightarrow> database \<times> (exception + response)" where
  "delete_trade trade_id db current_user =
     (if \<not> sqlite_integer trade_id then (db, Inl OverflowError)
      else
        (let trade = first (filter (\<lambda>t. t_id t = trade_id \<and> owner_id t = u_id current_user)
                                   (trades db))
         in case trade of
              Some row \<Rightarrow> (db\<lparr>trades := filter (\<lambda>t. t_id t \<noteq> t_id row) (trades db)\<rparr>,
                           Inr (Dict [(''status'', ''deleted'')]))
            | None \<Rightarrow> (db, Inr (Dict [(''status'', ''deleted'')]))))"

subsection \<open>Python helpers\<close>

text \<open>\<^verbatim>\<open>s.split(sep)\<close> for a separator of one character: empty pieces are kept.\<close>

fun str_split :: "char \<Rightarrow> string \<Rightarrow> string list" where
  "str_split sep [] = [[]]"
| "str_split sep (c # cs) =
     (if c = sep then [] # str_split sep cs
      else (case str_split sep cs of [] \<Rightarrow> [[c]] | w # ws \<Rightarrow> (c # w) # ws))"

text \<open>\<^verbatim>\<open>xs[i]\<close> for an index that is not negative: \<^verbatim>\<open>IndexError\<close> past the end.\<close>

definition getitem :: "'a list \<Rightarrow> nat \<Rightarrow> exception + 'a" where
  "getitem xs i = (if i < length xs then Inr (xs ! i) else Inl IndexError)"

text \<open>
  A \<^verbatim>\<open>datetime\<close> is its number of microseconds since the epoch (the resolution of Python's
  \<^verbatim>\<open>datetime\<close>); \<^verbatim>\<open>datetime.utcnow()\<close> is an argument \<open>utcnow\<close> of every function that
  reads the clock. \<^verbatim>\<open>timegm(dt.utctimetuple())\<close> is the whole seconds of a \<^verbatim>\<open>datetime\<close>.
\<close>

definition timedelta_minutes :: "int \<Rightarrow> int" where
  "timedelta_minutes m = m * 60 * 1000000"

definition timegm :: "int \<Rightarrow> int" where
  "timegm dt = dt div 1000000"

text \<open>
  The values of the claims dictionary: a string, an integer, and the \<^verbatim>\<open>datetime\<close> that
  \<^verbatim>\<open>create_access_token\<close> stores under \<^verbatim>\<open>exp\<close>. A dictionary is an association list in
  insertion order; \<^verbatim>\<open>d.update({k: v})\<close> is \<open>AList.update k v d\<close> and \<^verbatim>\<open>d.get(k)\<close> is
  \<open>map_of d k\<close>.
\<close>

datatype claim = Str string | Num int | Datetime int

type_synonym pydict = "(string \<times> claim) list"

text \<open>
  \<^verbatim>\<open>int(v)\<close> for the value of a claim. What Python's \<^verbatim>\<open>int\<close> makes of a string (its
  whitespace, sign, digit and length rules) is a parameter \<open>to_int\<close> of the model, \<open>None\<close>
  where \<^verbatim>\<open>int\<close> raises \<^verbatim>\<open>ValueError\<close>; a \<^verbatim>\<open>datetime\<close> is no number (\<^verbatim>\<open>TypeError\<close>).
\<close>

type_synonym str_to_int = "string \<Rightarrow> int option"

fun claim_int :: "str_to_int \<Rightarrow> claim \<Rightarrow> exception + int" where
  "claim_int to_int (Num n) = Inr n"
| "claim_int to_int (Str s) = (case to_int s of None \<Rightarrow> Inl ValueError | Some n \<Rightarrow> Inr n)"
| "claim_int to_int (Datetime dt) = Inl TypeError"

subsection \<open>The libraries: passlib and jose\<close>

text \<open>
  The program calls two libraries that are not part of it. Their cryptography is a
  parameter of the model: \<open>bcrypt_hash\<close> and \<open>bcrypt_verify\<close> stand for passlib's bcrypt
  handler (the salt is drawn inside \<open>bcrypt_hash\<close>; \<open>bcrypt_verify\<close> parses the stored string
  and compares, and raises where the handler does), \<open>jws_sign\<close> and \<open>jws_verify\<close> for the
  signing and the signature check of jose (\<open>jws_verify\<close> returns the claims of a token whose
  signature verifies under the key with one of the algorithms, \<open>None\<close> for any other
  string). What the libraries do around the cryptography is written out below.
\<close>

type_synonym bcrypt_hash = "string \<Rightarrow> exception + string"
type_synonym bcrypt_verify = "string \<Rightarrow> string \<Rightarrow> exception + bool"
type_synonym jws_sign = "pydict \<Rightarrow> string \<Rightarrow> string \<Rightarrow> string"
type_synonym jws_verify = "string \<Rightarrow> string \<Rightarrow> string list \<Rightarrow> pydict option"

text \<open>
  \<^verbatim>\<open>pwd_context = CryptContext(schemes=["bcrypt"], deprecated="auto")\<close>. Its \<^verbatim>\<open>verify\<close> first
  identifies the scheme of the stored hash, bcrypt by one of its five prefixes, and raises
  \<^verbatim>\<open>UnknownHashError\<close> ("hash could not be identified") when there is none; only then does
  the handler parse the hash and compare. Its \<^verbatim>\<open>hash\<close> uses the one scheme.
\<close>

definition bcrypt_identify :: "string \<Rightarrow> bool" where
  "bcrypt_identify hash =
     list_ex (\<lambda>ident. take (length ident) hash = ident) [''$2$'', ''$2a$'', ''$2x$'', ''$2y$'', ''$2b$'']"

definition pwd_context_verify :: "bcrypt_verify \<Rightarrow> string \<Rightarrow> string \<Rightarrow> exception + bool" where
  "pwd_context_verify handler secret hash =
     (if bcrypt_identify hash then handler secret hash else Inl UnknownHashError)"

definition pwd_context_hash :: "bcrypt_hash \<Rightarrow> string \<Rightarrow> exception + string" where
  "pwd_context_hash handler secret = handler secret"

text \<open>
  \<^verbatim>\<open>jwt.encode\<close> of jose turns a \<^verbatim>\<open>datetime\<close> under \<^verbatim>\<open>exp\<close>, \<^verbatim>\<open>iat\<close> or \<^verbatim>\<open>nbf\<close> into its
  whole seconds and signs the JSON of the claims; a \<^verbatim>\<open>datetime\<close> anywhere else has no JSON
  form.
\<close>

fun intdate :: "string \<times> claim \<Rightarrow> string \<times> claim" where
  "intdate (k, Datetime dt) =
     (if k = ''exp'' \<or> k = ''iat'' \<or> k = ''nbf'' then (k, Num (timegm dt)) else (k, Datetime dt))"
| "intdate (k, v) = (k, v)"

fun is_datetime :: "claim \<Rightarrow> bool" where
  "is_datetime (Datetime dt) = True"
| "is_datetime v = False"

definition jwt_encode :: "jws_sign \<Rightarrow> pydict \<Rightarrow> string \<Rightarrow> string \<Rightarrow> exception + string" where
  "jwt_encode sign claims key algorithm =
     (let claims = map intdate claims
      in if list_ex is_datetime (map snd claims) then Inl TypeError
         else Inr (sign claims key algorithm))"

text \<open>
  \<^verbatim>\<open>jwt.decode(token, key, algorithms)\<close> of jose: \<^verbatim>\<open>JWTError\<close> when the signature does not
  verify, then the checks of the claims, in jose's order and with its default options (no
  leeway; no audience, issuer, subject or access token is passed), the first failure being
  raised:
  \<^item> \<^verbatim>\<open>iat\<close>, when present, must be readable as an integer;
  \<^item> \<^verbatim>\<open>nbf\<close>, when present, must be readable as an integer and not lie after the clock's
    whole seconds;
  \<^item> \<^verbatim>\<open>exp\<close>, when present, must be readable as an integer, and \<^verbatim>\<open>ExpiredSignatureError\<close>
    is raised when it is less than the clock's whole seconds;
  \<^item> an \<^verbatim>\<open>aud\<close> claim is refused, since no audience is expected;
  \<^item> \<^verbatim>\<open>iss\<close> is not looked at, since no issuer is expected;
  \<^item> \<^verbatim>\<open>sub\<close> and \<^verbatim>\<open>jti\<close>, when present, must be strings;
  \<^item> an \<^verbatim>\<open>at_hash\<close> claim is refused, since there is no access token to compare it with.

  Each check catches only the \<^verbatim>\<open>ValueError\<close> of \<^verbatim>\<open>int\<close>; a \<^verbatim>\<open>TypeError\<close> passes through.
\<close>

definition validate_iat :: "str_to_int \<Rightarrow> pydict \<Rightarrow> exception option" where
  "validate_iat to_int claims =
     (case map_of claims ''iat'' of
        None \<Rightarrow> None
      | Some v \<Rightarrow>
          (case claim_int to_int v of
             Inl ValueError \<Rightarrow> Some JWTClaimsError
           | Inl e \<Rightarrow> Some e
           | Inr iat \<Rightarrow> None))"

definition validate_nbf :: "str_to_int \<Rightarrow> int \<Rightarrow> pydict \<Rightarrow> exception option" where
  "validate_nbf to_int utcnow claims =
     (case map_of claims ''nbf'' of
        None \<Rightarrow> None
      | Some v \<Rightarrow>
          (case claim_int to_int v of
             Inl ValueError \<Rightarrow> Some JWTClaimsError
           | Inl e \<Rightarrow> Some e
           | Inr nbf \<Rightarrow> (if nbf > timegm utcnow then Some JWTClaimsError else None)))"

definition validate_exp :: "str_to_int \<Rightarrow> int \<Rightarrow> pydict \<Rightarrow> exception option" where
  "validate_exp to_int utcnow claims =
     (case map_of claims ''exp'' of
        None \<Rightarrow> None
      | Some v \<Rightarrow>
          (case claim_int to_int v of
             Inl ValueError \<Rightarrow> Some JWTClaimsError
           | Inl e \<Rightarrow> Some e
           | Inr exp_claim \<Rightarrow>
               (if exp_claim < timegm utcnow then Some ExpiredSignatureError else None)))"

definition validate_aud :: "pydict \<Rightarrow> exception option" where
  "validate_aud claims =
     (case map_of claims ''aud'' of
        None \<Rightarrow> None
      | Some v \<Rightarrow> Some JWTClaimsError)"

definition validate_sub :: "pydict \<Rightarrow> exception option" where
  "validate_sub claims =
     (case map_of claims ''sub'' of
        None \<Rightarrow> None
      | Some (Str s) \<Rightarrow> None
      | Some _ \<Rightarrow> Some JWTClaimsError)"

definition validate_jti :: "pydict \<Rightarrow> exception option" where
  "validate_jti claims =
     (case map_of claims ''jti'' of
        None \<Rightarrow> None
      | Some (Str s) \<Rightarrow> None
      | Some _ \<Rightarrow> Some JWTClaimsError)"

definition validate_at_hash :: "pydict \<Rightarrow> exception option" where
  "validate_at_hash claims =
     (case map_of claims ''at_hash'' of
        None \<Rightarrow> None
      | Some v \<Rightarrow> Some JWTClaimsError)"

text \<open>The checks run one after the other; the first exception is the one raised.\<close>

fun first_raised :: "exception option list \<Rightarrow> exception option" where
  "first_raised [] = None"
| "first_raised (None # checks) = first_raised checks"
| "first_raised (Some e # checks) = Some e"

definition validate_claims :: "str_to_int \<Rightarrow> int \<Rightarrow> pydict \<Rightarrow> exception option" where
  "validate_claims to_int utcnow claims =
     first_raised [validate_iat to_int claims,
                   validate_nbf to_int utcnow claims,
                   validate_exp to_int utcnow claims,
                   validate_aud claims,
                   validate_sub claims,
                   validate_jti claims,
                   validate_at_hash claims]"

definition jwt_decode ::
  "jws_verify \<Rightarrow> str_to_int \<Rightarrow> int \<Rightarrow> string \<Rightarrow> string \<Rightarrow> string list \<Rightarrow> exception + pydict" where
  "jwt_decode verify to_int utcnow token key algorithms =
     (case verify token key algorithms of
        None \<Rightarrow> Inl JWTError
      | Some claims \<Rightarrow>
          (case validate_claims to_int utcnow claims of
             Some e \<Rightarrow> Inl e
           | None \<Rightarrow> Inr claims))"

subsection \<open>Security helpers (lines 72-83)\<close>

definition verify_password :: "bcrypt_verify \<Rightarrow> string \<Rightarrow> string \<Rightarrow> exception + bool" where
  "verify_password handler plain_password hashed =
     pwd_context_verify handler plain_password hashed"

definition get_password_hash :: "bcrypt_hash \<Rightarrow> string \<Rightarrow> exception + string" where
  "get_password_hash handler plain_password = pwd_context_hash handler plain_password"

definition create_access_token :: "jws_sign \<Rightarrow> int \<Rightarrow> pydict \<Rightarrow> exception + string" where
  "create_access_token sign utcnow data =
     (let to_encode = data;
          expire = utcnow + timedelta_minutes ACCESS_TOKEN_EXPIRE_MINUTES;
          to_encode = AList.update ''exp'' (Datetime expire) to_encode;
          encoded_jwt = jwt_encode sign to_encode SECRET_KEY ALGORITHM
      in encoded_jwt)"

subsection \<open>The guard (lines 97-116)\<close>

record Request =
  headers :: "string \<rightharpoonup> string"

text \<open>
  Lines 106-109, inside the \<^verbatim>\<open>try\<close>: the token is decoded and its \<^verbatim>\<open>sub\<close> claim read; the
  \<^verbatim>\<open>HTTPException\<close> for a missing \<^verbatim>\<open>sub\<close> is raised inside the \<^verbatim>\<open>try\<close> as well.
\<close>

definition decode_subject :: "jws_verify \<Rightarrow> str_to_int \<Rightarrow> int \<Rightarrow> string \<Rightarrow> exception + claim" where
  "decode_subject verify to_int utcnow token =
     (case jwt_decode verify to_int utcnow token SECRET_KEY [ALGORITHM] of
        Inl e \<Rightarrow> Inl e
      | Inr payload \<Rightarrow>
          (case map_of payload ''sub'' of
             None \<Rightarrow> Inl (HTTPException 401 None)
           | Some subject \<Rightarrow> Inr subject))"

text \<open>Lines 105-109, the whole body of the \<^verbatim>\<open>try\<close>: the second piece of the header is the token.\<close>

definition header_subject :: "jws_verify \<Rightarrow> str_to_int \<Rightarrow> int \<Rightarrow> string \<Rightarrow> exception + claim" where
  "header_subject verify to_int utcnow token =
     (case getitem (str_split CHR '' '' token) 1 of
        Inl e \<Rightarrow> Inl e
      | Inr token \<Rightarrow> decode_subject verify to_int utcnow token)"

text \<open>
  \<^verbatim>\<open>get_current_user\<close>: a missing or empty header is refused first; \<^verbatim>\<open>except Exception\<close>
  turns every exception of the \<^verbatim>\<open>try\<close> into the same \<^verbatim>\<open>HTTPException\<close>; the user is then
  looked up by name.
\<close>

definition get_current_user ::
  "jws_verify \<Rightarrow> str_to_int \<Rightarrow> int \<Rightarrow> Request \<Rightarrow> database \<Rightarrow> exception + UserDB" where
  "get_current_user verify to_int utcnow request db =
     (case headers request ''Authorization'' of
        None \<Rightarrow> Inl (HTTPException 401 (Some ''Not authenticated''))
      | Some token \<Rightarrow>
          if token = [] then Inl (HTTPException 401 (Some ''Not authenticated''))
          else (case header_subject verify to_int utcnow token of
                  Inl e \<Rightarrow> Inl (HTTPException 401 (Some ''Token invalid''))
                | Inr subject \<Rightarrow>
                    (case first (filter (\<lambda>u. Str (UserDB.username u) = subject) (users db)) of
                       None \<Rightarrow> Inl (HTTPException 401 None)
                     | Some user \<Rightarrow> Inr user)))"

subsection \<open>Registration and login (lines 125-148)\<close>

definition register :: "bcrypt_hash \<Rightarrow> UserLogin \<Rightarrow> database \<Rightarrow> database \<times> (exception + response)" where
  "register handler user db =
     (let existing_user = first (filter (\<lambda>u. UserDB.username u = UserLogin.username user) (users db))
      in case existing_user of
           Some found \<Rightarrow> (db, Inl (HTTPException 400 (Some ''User already exists'')))
         | None \<Rightarrow>
             (case get_password_hash handler (password user) of
                Inl e \<Rightarrow> (db, Inl e)
              | Inr hashed_pw \<Rightarrow>
                  (let new_user = \<lparr>u_id = next_id (map u_id (users db)),
                                   username = UserLogin.username user,
                                   hashed_password = hashed_pw\<rparr>
                   in (db\<lparr>users := users db @ [new_user]\<rparr>,
                       Inr (Dict [(''msg'', ''User created successfully'')])))))"

text \<open>
  \<^verbatim>\<open>login\<close> has no \<^verbatim>\<open>try\<close>: an exception of \<^verbatim>\<open>verify_password\<close> leaves the route as it is
  (the framework answers it with status 500).
\<close>

definition login :: "bcrypt_verify \<Rightarrow> jws_sign \<Rightarrow> int \<Rightarrow> UserLogin \<Rightarrow> database \<Rightarrow> exception + response" where
  "login handler sign utcnow user db =
     (let db_user = first (filter (\<lambda>u. UserDB.username u = UserLogin.username user) (users db))
      in case db_user of
           None \<Rightarrow> Inl (HTTPException 401 (Some ''Incorrect username or password''))
         | Some db_user \<Rightarrow>
             (case verify_password handler (password user) (hashed_password db_user) of
                Inl e \<Rightarrow> Inl e
              | Inr False \<Rightarrow> Inl (HTTPException 401 (Some ''Incorrect username or password''))
              | Inr True \<Rightarrow>
                  (case create_access_token sign utcnow [(''sub'', Str (UserDB.username db_user))] of
                     Inl e \<Rightarrow> Inl e
                   | Inr access_token \<Rightarrow>
                       Inr (Dict [(''access_token'', access_token), (''token_type'', ''bearer'')]))))"

subsection \<open>The protected routes with their dependency\<close>

text \<open>
  Each trade route declares \<^verbatim>\<open>current_user: UserDB = Depends(get_current_user)\<close>: the
  framework runs the guard on the request and calls the route function with its result;
  an exception of the guard is the response and the route function is not called.
\<close>

definition api_create_trade ::
  "jws_verify \<Rightarrow> str_to_int \<Rightarrow> int \<Rightarrow> Request \<Rightarrow> TradeSchema \<Rightarrow> database
     \<Rightarrow> database \<times> (exception + response)" where
  "api_create_trade verify to_int utcnow request trade db =
     (case get_current_user verify to_int utcnow request db of
        Inl e \<Rightarrow> (db, Inl e)
      | Inr current_user \<Rightarrow>
          (case create_trade trade db current_user of (db', r) \<Rightarrow> (db', Inr r)))"

definition api_read_trades ::
  "jws_verify \<Rightarrow> str_to_int \<Rightarrow> int \<Rightarrow> Request \<Rightarrow> database
     \<Rightarrow> database \<times> (exception + response)" where
  "api_read_trades verify to_int utcnow request db =
     (case get_current_user verify to_int utcnow request db of
        Inl e \<Rightarrow> (db, Inl e)
      | Inr current_user \<Rightarrow> (db, Inr (Rows (read_trades db current_user))))"

definition api_delete_trade ::
  "jws_verify \<Rightarrow> str_to_int \<Rightarrow> int \<Rightarrow> Request \<Rightarrow> int \<Rightarrow> database
     \<Rightarrow> database \<times> (exception + response)" where
  "api_delete_trade verify to_int utcnow request trade_id db =
     (case get_current_user verify to_int utcnow request db of
        Inl e \<Rightarrow> (db, Inl e)
      | Inr current_user \<Rightarrow> delete_trade trade_id db current_user)"

subsection \<open>Stand-ins for the libraries\<close>

text \<open>
  To evaluate the model on a concrete request the library parameters need values. These
  stand-ins have the shape of the libraries' results and none of their cryptography.
  The bcrypt stand-in refuses a stored string that is not 60 characters long and a password
  with a NUL character, as the handler does (\<^verbatim>\<open>ValueError\<close>), and knows two passwords:
  \<open>secret\<close> for \<open>secret_hash\<close> and \<open>abc123xyz\<close> for \<open>other_hash\<close>. The hashing stand-in
  puts the password behind a bcrypt prefix. Exactly one token is signed, the one for the
  claims \<open>alice_claims\<close>; a second stand-in for the signature check accepts, besides, a
  token that carries an \<^verbatim>\<open>aud\<close> claim. The integer stand-in reads a string of decimal
  digits.
\<close>

definition secret_hash :: string where
  "secret_hash = ''$2b$12$EixZaYVK1fsbw1ZfbX3OXePaWxn96p36WQoeG6Lruj3vjPGga31lW''"

definition other_hash :: string where
  "other_hash = ''$2a$12$R9h/cIPz0gi.URNNX3kh2OPST9/PgBkqquzi.Ss7KIUgO2t0jWMUW''"

definition fixture_hash :: bcrypt_hash where
  "fixture_hash secret = Inr (''$2b$12$'' @ secret)"

definition fixture_check :: bcrypt_verify where
  "fixture_check secret hash =
     (if length hash \<noteq> 60 then Inl ValueError
      else if CHR 0x00 \<in> set secret then Inl ValueError
      else Inr ((secret = ''secret'' \<and> hash = secret_hash)
                \<or> (secret = ''abc123xyz'' \<and> hash = other_hash)))"

definition alice_claims :: pydict where
  "alice_claims = [(''sub'', Str ''alice''), (''exp'', Num 3600)]"

definition audience_claims :: pydict where
  "audience_claims = [(''sub'', Str ''alice''), (''exp'', Num 3600), (''aud'', Str ''journal'')]"

definition fixture_sign :: jws_sign where
  "fixture_sign claims key algorithm =
     (if claims = alice_claims \<and> key = SECRET_KEY \<and> algorithm = ALGORITHM
      then ''alice.token'' else ''other.token'')"

definition fixture_verify :: jws_verify where
  "fixture_verify token key algorithms =
     (if token = ''alice.token'' \<and> key = SECRET_KEY \<and> ALGORITHM \<in> set algorithms
      then Some alice_claims else None)"

definition fixture_verify_aud :: jws_verify where
  "fixture_verify_aud token key algorithms =
     (if token = ''audience.token'' \<and> key = SECRET_KEY \<and> ALGORITHM \<in> set algorithms
      then Some audience_claims else fixture_verify token key algorithms)"

definition fixture_int :: str_to_int where
  "fixture_int s =
     (if s \<noteq> [] \<and> list_all (\<lambda>c. c \<in> set ''0123456789'') s
      then Some (foldl (\<lambda>n c. 10 * n + (of_char c - 48)) 0 s) else None)"

subsection \<open>A small database for evaluating the routes\<close>

definition alice :: UserDB where
  "alice = \<lparr>u_id = 1, username = ''alice'', hashed_password = secret_hash\<rparr>"

definition bob :: UserDB where
  "bob = \<lparr>u_id = 2, username = ''bob'', hashed_password = other_hash\<rparr>"

definition eurusd :: TradeSchema where
  "eurusd = \<lparr>date = ''2024-01-02'', pair = ''EURUSD'', direction = ''long'', risk = ''1%'',
              rr = ''1:2'', pl = 12.5, obs = ''breakout'', link = ''-''\<rparr>"

definition eurusd_row :: TradeDB where
  "eurusd_row = \<lparr>date = ''2024-01-02'', pair = ''EURUSD'', direction = ''long'', risk = ''1%'',
                  rr = ''1:2'', pl = 12.5, obs = ''breakout'', link = ''-'',
                  t_id = 1, owner_id = 1\<rparr>"

definition db_empty :: database where
  "db_empty = \<lparr>users = [alice, bob], trades = []\<rparr>"

definition db_one :: database where
  "db_one = \<lparr>users = [alice, bob], trades = [eurusd_row]\<rparr>"

definition db_bob :: database where
  "db_bob = \<lparr>users = [bob], trades = []\<rparr>"

definition request_with :: "string \<Rightarrow> Request" where
  "request_with v = \<lparr>headers = [''Authorization'' \<mapsto> v]\<rparr>"

definition alice_login :: UserLogin where
  "alice_login = \<lparr>UserLogin.username = ''alice'', password = ''secret''\<rparr>"

definition alice_wrong :: UserLogin where
  "alice_wrong = \<lparr>UserLogin.username = ''alice'', password = ''wrongpw''\<rparr>"

definition alice_nul :: UserLogin where
  "alice_nul = \<lparr>UserLogin.username = ''alice'', password = [CHR ''x'', CHR 0x00]\<rparr>"

section \<open>Properties\<close>

subsection \<open>Helper facts\<close>

lemma first_None_iff: "first xs = None \<longleftrightarrow> xs = []"
  by (cases xs) simp_all

lemma first_Some_mem: "first xs = Some x \<Longrightarrow> x \<in> set xs"
  by (cases xs) auto

lemma sqlite_integer_small: "sqlite_integer 1" "sqlite_integer 2" "sqlite_integer 7"
  by (simp_all add: sqlite_integer_def)

lemma delete_trade_overflow:
  "\<not> sqlite_integer trade_id \<Longrightarrow> delete_trade trade_id db current_user = (db, Inl OverflowError)"
  by (simp add: delete_trade_def)

lemma delete_trade_response:
  "sqlite_integer trade_id \<Longrightarrow>
   snd (delete_trade trade_id db current_user) = Inr (Dict [(''status'', ''deleted'')])"
  by (simp add: delete_trade_def split: option.split)


subsection \<open>Trade creation\<close>

text \<open>
  C2. Creating a trade appends exactly one row to the trades table, and that row's
  \<open>owner_id\<close> is the id of the user the guard resolved, for every user, every request body
  of the trade schema and every database; the body has no owner field, so two different
  bodies sent by the same user are stored with the same owner. The users table and the
  rows already stored are untouched.
\<close>

theorem create_trade_owner_from_caller:
  "(\<exists>row. trades (fst (create_trade trade db current_user)) = trades db @ [row]
          \<and> owner_id row = u_id current_user
          \<and> TradeSchema.truncate row = TradeSchema.truncate trade)
   \<and> owner_id (last (trades (fst (create_trade trade db current_user)))) = u_id current_user
   \<and> owner_id (last (trades (fst (create_trade trade' db current_user))))
       = owner_id (last (trades (fst (create_trade trade db current_user))))
   \<and> users (fst (create_trade trade db current_user)) = users db
   \<and> snd (create_trade trade db current_user) = Dict [(''status'', ''success'')]"
  by (simp add: create_trade_def Let_def TradeSchema.truncate_def)

subsection \<open>Ownership isolation\<close>

lemma db_one_created: "create_trade eurusd db_empty alice = (db_one, Dict [(''status'', ''success'')])"
  by (simp add: create_trade_def db_empty_def db_one_def eurusd_def eurusd_row_def alice_def
      next_id_def)






subsection \<open>The response of a deletion\<close>

text \<open>
  C5, as stated, fails: in \<open>db_one\<close> the user alice owns the trade with key 1 and no trade
  has key 2. Deleting key 1 removes the row, deleting key 2 removes nothing, and the two
  responses are equal.
\<close>

theorem delete_response_counterexample:
  "trades (fst (delete_trade 1 db_one alice)) = []
   \<and> trades db_one = [eurusd_row]
   \<and> fst (delete_trade 2 db_one alice) = db_one
   \<and> snd (delete_trade 1 db_one alice) = snd (delete_trade 2 db_one alice)"
  by (simp add: delete_trade_def sqlite_integer_small db_one_def eurusd_row_def alice_def)

text \<open>
  C5, amended. For every trade id that is a signed 64-bit integer and every caller, the
  response of \<open>delete_trade\<close> is \<open>{"status": "deleted"}\<close>, and so does not tell whether a
  row was deleted. The state does: when a row with that id is owned by the caller, the table
  loses the rows with that id and keeps every other row; when there is none, the call is
  not an error and the database is unchanged. (An id outside the 64-bit range is not
  covered.)
\<close>

theorem delete_trade_result:
  assumes "sqlite_integer trade_id"
  shows "snd (delete_trade trade_id db current_user) = Inr (Dict [(''status'', ''deleted'')])
   \<and> ((\<exists>t \<in> set (trades db). t_id t = trade_id \<and> owner_id t = u_id current_user) \<longrightarrow>
        fst (delete_trade trade_id db current_user)
          = db\<lparr>trades := filter (\<lambda>t. t_id t \<noteq> trade_id) (trades db)\<rparr>)
   \<and> (\<not> (\<exists>t \<in> set (trades db). t_id t = trade_id \<and> owner_id t = u_id current_user) \<longrightarrow>
        fst (delete_trade trade_id db current_user) = db)"
proof (cases "first (filter (\<lambda>t. t_id t = trade_id \<and> owner_id t = u_id current_user) (trades db))")
  case None
  then have "filter (\<lambda>t. t_id t = trade_id \<and> owner_id t = u_id current_user) (trades db) = []"
    by (simp add: first_None_iff)
  with assms show ?thesis
    by (auto simp: delete_trade_def filter_empty_conv)
next
  case (Some row)
  then have "row \<in> set (filter (\<lambda>t. t_id t = trade_id \<and> owner_id t = u_id current_user) (trades db))"
    by (rule first_Some_mem)
  then have "t_id row = trade_id" "owner_id row = u_id current_user" "row \<in> set (trades db)"
    by simp_all
  with Some assms show ?thesis
    by (auto simp: delete_trade_def)
qed

theorem delete_trade_result_witness:
  "sqlite_integer 1
   \<and> (\<exists>t \<in> set (trades db_one). t_id t = 1 \<and> owner_id t = u_id alice)
   \<and> fst (delete_trade 1 db_one alice) = db_one\<lparr>trades := []\<rparr>
   \<and> sqlite_integer 2
   \<and> \<not> (\<exists>t \<in> set (trades db_one). t_id t = 2 \<and> owner_id t = u_id alice)
   \<and> fst (delete_trade 2 db_one alice) = db_one
   \<and> snd (delete_trade 1 db_one alice) = Inr (Dict [(''status'', ''deleted'')])"
proof -
  have s1: "sqlite_integer 1" and s2: "sqlite_integer 2"
    by (rule sqlite_integer_small)+
  have e1: "\<exists>t \<in> set (trades db_one). t_id t = 1 \<and> owner_id t = u_id alice"
    by (simp add: db_one_def eurusd_row_def alice_def)
  have e2: "\<not> (\<exists>t \<in> set (trades db_one). t_id t = 2 \<and> owner_id t = u_id alice)"
    by (simp add: db_one_def eurusd_row_def alice_def)
  have f1: "filter (\<lambda>t. t_id t \<noteq> 1) (trades db_one) = []"
    by (simp add: db_one_def eurusd_row_def)
  from delete_trade_result [OF s1, of db_one alice] e1 f1
  have d1: "fst (delete_trade 1 db_one alice) = db_one\<lparr>trades := []\<rparr>"
    and r1: "snd (delete_trade 1 db_one alice) = Inr (Dict [(''status'', ''deleted'')])"
    by simp_all
  from delete_trade_result [OF s2, of db_one alice] e2
  have d2: "fst (delete_trade 2 db_one alice) = db_one"
    by blast
  from s1 e1 d1 s2 e2 d2 r1 show ?thesis
    by blast
qed

subsection \<open>Helper facts on queries and headers\<close>

lemma first_filter_unique:
  assumes "distinct (map f xs)" and "x \<in> set xs"
  shows "first (filter (\<lambda>y. f y = f x) xs) = Some x"
  using assms
proof (induction xs)
  case Nil
  then show ?case by simp
next
  case (Cons a xs)
  show ?case
  proof (cases "a = x")
    case True
    then show ?thesis by simp
  next
    case False
    with Cons.prems have "x \<in> set xs" "f a \<noteq> f x" "distinct (map f xs)"
      by auto
    with Cons.IH show ?thesis by simp
  qed
qed

lemma first_filter_absent:
  assumes "v \<notin> f ` set xs"
  shows "first (filter (\<lambda>y. f y = v) xs) = None"
  using assms by (auto simp: first_None_iff filter_empty_conv)

lemma str_split_no_sep: "sep \<notin> set s \<Longrightarrow> str_split sep s = [s]"
  by (induction s) auto

lemma str_split_piece: "sep \<notin> set s \<Longrightarrow> str_split sep (s @ sep # r) = s # str_split sep r"
  by (induction s) auto

lemma header_one_piece:
  assumes "CHR '' '' \<notin> set h"
  shows "getitem (str_split CHR '' '' h) 1 = Inl IndexError"
  using assms by (simp add: str_split_no_sep getitem_def)

lemma header_two_pieces:
  assumes "CHR '' '' \<notin> set s" and "CHR '' '' \<notin> set t"
  shows "getitem (str_split CHR '' '' (s @ '' '' @ t)) 1 = Inr t"
  using assms by (simp add: str_split_piece str_split_no_sep getitem_def)

lemma header_more_pieces:
  assumes "CHR '' '' \<notin> set s" and "CHR '' '' \<notin> set t"
  shows "getitem (str_split CHR '' '' (s @ '' '' @ t @ '' '' @ rest)) 1 = Inr t"
  using assms by (simp add: str_split_piece getitem_def)

lemmas validate_defs =
  validate_claims_def validate_iat_def validate_nbf_def validate_exp_def validate_aud_def
  validate_sub_def validate_jti_def validate_at_hash_def

lemma alice_token_decodes:
  "jwt_decode fixture_verify to_int 500000 ''alice.token'' SECRET_KEY [ALGORITHM] = Inr alice_claims"
  by (simp add: jwt_decode_def fixture_verify_def validate_defs alice_claims_def timegm_def)

lemma db_one_usernames: "unique_usernames db_one"
  by (simp add: unique_usernames_def db_one_def alice_def bob_def)

subsection \<open>The keys stay distinct\<close>

lemma foldr_max_upper: "i \<in> set ids \<Longrightarrow> i \<le> foldr max ids (0::int)"
  by (induction ids) auto

lemma next_id_fresh: "next_id ids \<notin> set ids"
proof
  assume "next_id ids \<in> set ids"
  then have "next_id ids \<le> foldr max ids 0"
    by (rule foldr_max_upper)
  then show False
    by (simp add: next_id_def)
qed

lemma create_trade_primary_keys:
  "primary_keys db \<Longrightarrow> primary_keys (fst (create_trade trade db current_user))"
  using next_id_fresh [of "map t_id (trades db)"]
  by (simp add: primary_keys_def create_trade_def Let_def)

lemma delete_trade_primary_keys:
  "primary_keys db \<Longrightarrow> primary_keys (fst (delete_trade trade_id db current_user))"
  by (simp add: primary_keys_def delete_trade_def distinct_map_filter split: option.split)

lemma register_primary_keys:
  "primary_keys db \<Longrightarrow> primary_keys (fst (register handler user db))"
  using next_id_fresh [of "map u_id (users db)"]
  by (simp add: primary_keys_def register_def Let_def split: option.split sum.split)

lemma register_unique_usernames:
  assumes "unique_usernames db"
  shows "unique_usernames (fst (register handler user db))"
proof (cases "first (filter (\<lambda>u. UserDB.username u = UserLogin.username user) (users db))")
  case None
  then have "UserLogin.username user \<notin> UserDB.username ` set (users db)"
    by (auto simp: first_None_iff filter_empty_conv)
  with assms None show ?thesis
    by (simp add: unique_usernames_def register_def Let_def split: sum.split)
next
  case (Some found)
  with assms show ?thesis
    by (simp add: register_def)
qed

subsection \<open>Registration\<close>

lemma register_existing:
  assumes "u \<in> set (users db)"
    and "UserDB.username u = UserLogin.username user"
  shows "register handler user db = (db, Inl (HTTPException 400 (Some ''User already exists'')))"
proof -
  from assms have "filter (\<lambda>r. UserDB.username r = UserLogin.username user) (users db) \<noteq> []"
    by (auto simp: filter_empty_conv)
  then obtain found where
    "first (filter (\<lambda>r. UserDB.username r = UserLogin.username user) (users db)) = Some found"
    by (cases "filter (\<lambda>r. UserDB.username r = UserLogin.username user) (users db)") auto
  then show ?thesis
    by (simp add: register_def)
qed

lemma register_twice:
  assumes "register handler user db = (db', Inr r)"
    and "UserLogin.username user' = UserLogin.username user"
  shows "register handler' user' db' = (db', Inl (HTTPException 400 (Some ''User already exists'')))"
proof -
  from assms(1) obtain hashed_pw where
    "db' = db\<lparr>users := users db @ [\<lparr>u_id = next_id (map u_id (users db)),
        username = UserLogin.username user, hashed_password = hashed_pw\<rparr>]\<rparr>"
    by (auto simp: register_def Let_def split: option.splits sum.splits)
  then have "\<lparr>u_id = next_id (map u_id (users db)),
        username = UserLogin.username user, hashed_password = hashed_pw\<rparr> \<in> set (users db')"
    by simp
  from register_existing [OF this, of user' handler'] assms(2) show ?thesis
    by simp
qed

text \<open>
  C8. In every database that has a user \<open>u\<close> with the requested username, \<open>register\<close>
  raises \<open>HTTPException 400 "User already exists"\<close> and returns the database it was given:
  the users table is the same list, and \<open>u\<close> with its id, username and password hash is
  still in it.
\<close>

theorem register_conflict:
  assumes "u \<in> set (users db)"
    and "UserDB.username u = UserLogin.username user"
  shows "register handler user db = (db, Inl (HTTPException 400 (Some ''User already exists'')))
       \<and> users (fst (register handler user db)) = users db
       \<and> u \<in> set (users (fst (register handler user db)))"
  using register_existing [OF assms] assms(1) by simp

theorem register_conflict_witness:
  "alice \<in> set (users db_one)
   \<and> UserDB.username alice = UserLogin.username alice_wrong
   \<and> register fixture_hash alice_wrong db_one
        = (db_one, Inl (HTTPException 400 (Some ''User already exists'')))"
proof -
  have h1: "alice \<in> set (users db_one)"
    by (simp add: db_one_def)
  have h2: "UserDB.username alice = UserLogin.username alice_wrong"
    by (simp add: alice_def alice_wrong_def)
  from register_conflict [OF h1 h2, of fixture_hash] h1 h2 show ?thesis
    by blast
qed

subsection \<open>Login\<close>

lemma login_unknown_user:
  assumes "UserLogin.username user \<notin> UserDB.username ` set (users db)"
  shows "login handler sign utcnow user db = Inl (HTTPException 401 (Some ''Incorrect username or password''))"
  using first_filter_absent [OF assms] by (simp add: login_def)

lemma login_wrong_password:
  assumes "unique_usernames db"
    and "db_user \<in> set (users db)"
    and "UserDB.username db_user = UserLogin.username user"
    and "verify_password handler (password user) (hashed_password db_user) = Inr False"
  shows "login handler sign utcnow user db = Inl (HTTPException 401 (Some ''Incorrect username or password''))"
proof -
  have "first (filter (\<lambda>u. UserDB.username u = UserDB.username db_user) (users db)) = Some db_user"
    using assms(1,2) unfolding unique_usernames_def by (rule first_filter_unique)
  with assms(3,4) show ?thesis
    by (simp add: login_def)
qed

lemma login_verify_raises:
  assumes "unique_usernames db"
    and "db_user \<in> set (users db)"
    and "UserDB.username db_user = UserLogin.username user"
    and "verify_password handler (password user) (hashed_password db_user) = Inl e"
  shows "login handler sign utcnow user db = Inl e"
proof -
  have "first (filter (\<lambda>u. UserDB.username u = UserDB.username db_user) (users db)) = Some db_user"
    using assms(1,2) unfolding unique_usernames_def by (rule first_filter_unique)
  with assms(3,4) show ?thesis
    by (simp add: login_def)
qed

text \<open>
  Where \<open>verify_password\<close> returns false, the failed login of an existing user is the failed
  login of an unknown one.
\<close>

lemma login_mismatch_as_unknown:
  assumes "UserLogin.username user \<notin> UserDB.username ` set (users db1)"
    and "unique_usernames db2"
    and "db_user \<in> set (users db2)"
    and "UserDB.username db_user = UserLogin.username user"
    and "verify_password handler (password user) (hashed_password db_user) = Inr False"
  shows "login handler sign utcnow user db1 = login handler sign utcnow user db2"
  using login_unknown_user [OF assms(1)] login_wrong_password [OF assms(2-5)] by simp

lemma secret_hash_identified: "bcrypt_identify secret_hash" "length secret_hash = 60"
  by (simp_all add: bcrypt_identify_def secret_hash_def)

lemma verify_wrong_password:
  "verify_password fixture_check ''wrongpw'' secret_hash = Inr False"
  by (simp add: verify_password_def pwd_context_verify_def secret_hash_identified fixture_check_def)

lemma verify_right_password:
  "verify_password fixture_check ''secret'' secret_hash = Inr True"
  by (simp add: verify_password_def pwd_context_verify_def secret_hash_identified fixture_check_def)

lemma verify_nul_password:
  "verify_password fixture_check [CHR ''x'', CHR 0x00] secret_hash = Inl ValueError"
  by (simp add: verify_password_def pwd_context_verify_def secret_hash_identified fixture_check_def)

text \<open>
  C7. The claim fails on the code. The route gives one answer, \<open>HTTPException 401
  "Incorrect username or password"\<close>, to an unknown username and to a password that
  \<open>verify_password\<close> finds wrong, but it calls \<open>verify_password\<close> outside any \<open>try\<close>. For
  the pair (alice, a password with a NUL character) the bcrypt handler raises: where alice
  exists (\<open>db_one\<close>) the exception leaves the route; where she does not (\<open>db_bob\<close>) the answer
  is the 401. The two answers to one pair differ, and the caller learns that alice exists.
  With the password \<open>wrongpw\<close> the answer in \<open>db_one\<close> is the 401.
\<close>

theorem login_nul_password_divergence:
  "login fixture_check fixture_sign 500000 alice_nul db_bob
     = Inl (HTTPException 401 (Some ''Incorrect username or password''))
   \<and> login fixture_check fixture_sign 500000 alice_nul db_one = Inl ValueError
   \<and> login fixture_check fixture_sign 500000 alice_nul db_one
       \<noteq> login fixture_check fixture_sign 500000 alice_nul db_bob
   \<and> login fixture_check fixture_sign 500000 alice_wrong db_one
     = Inl (HTTPException 401 (Some ''Incorrect username or password''))"
proof -
  have unknown: "login fixture_check fixture_sign 500000 alice_nul db_bob
     = Inl (HTTPException 401 (Some ''Incorrect username or password''))"
    by (rule login_unknown_user) (simp add: alice_nul_def bob_def db_bob_def)
  have member: "alice \<in> set (users db_one)"
    by (simp add: db_one_def)
  have raised: "login fixture_check fixture_sign 500000 alice_nul db_one = Inl ValueError"
    using db_one_usernames member
    by (rule login_verify_raises) (simp_all add: alice_def alice_nul_def verify_nul_password)
  have wrong: "login fixture_check fixture_sign 500000 alice_wrong db_one
     = Inl (HTTPException 401 (Some ''Incorrect username or password''))"
    using db_one_usernames member
    by (rule login_wrong_password) (simp_all add: alice_def alice_wrong_def verify_wrong_password)
  from unknown raised wrong show ?thesis
    by simp
qed

subsection \<open>Password verification\<close>

text \<open>
  C4, as stated, fails: the stored string \<open>not-a-hash\<close> has no bcrypt prefix, and
  \<open>verify_password\<close> raises \<open>UnknownHashError\<close> for it, whatever the bcrypt handler is; it
  does not return false.
\<close>

theorem verify_password_counterexample:
  "verify_password fixture_check ''pw1'' ''not-a-hash'' = Inl UnknownHashError"
  by (simp add: verify_password_def pwd_context_verify_def bcrypt_identify_def)

text \<open>
  C4, amended. \<open>verify_password\<close> is not total over malformed input and has no exception
  handling of its own. For every password and every stored string without a bcrypt prefix
  it raises \<open>UnknownHashError\<close>; it does not return false there. For a stored string with
  a bcrypt prefix its result is the result of passlib's bcrypt handler on that password
  and string, an exception where the handler raises. So it returns true exactly when the
  string has a bcrypt prefix and the handler finds the password to match it, and it
  returns false exactly when the string has a bcrypt prefix and the handler compares and
  finds a mismatch.
\<close>

theorem verify_password_result:
  "(\<not> bcrypt_identify hashed \<longrightarrow>
      verify_password handler plain_password hashed = Inl UnknownHashError)
   \<and> (bcrypt_identify hashed \<longrightarrow>
      verify_password handler plain_password hashed = handler plain_password hashed)
   \<and> (verify_password handler plain_password hashed = Inr True)
       = (bcrypt_identify hashed \<and> handler plain_password hashed = Inr True)
   \<and> (verify_password handler plain_password hashed = Inr False)
       = (bcrypt_identify hashed \<and> handler plain_password hashed = Inr False)"
  by (simp add: verify_password_def pwd_context_verify_def)

theorem verify_password_result_witness:
  "\<not> bcrypt_identify ''plaintext''
   \<and> verify_password fixture_check ''wrongpw'' ''plaintext'' = Inl UnknownHashError
   \<and> bcrypt_identify ''$2b$12$pw1''
   \<and> verify_password fixture_check ''pw1'' ''$2b$12$pw1'' = Inl ValueError
   \<and> bcrypt_identify secret_hash
   \<and> verify_password fixture_check ''wrongpw'' secret_hash = Inr False"
proof -
  have h1: "\<not> bcrypt_identify ''plaintext''"
    by (simp add: bcrypt_identify_def)
  have h2: "bcrypt_identify ''$2b$12$pw1''"
    by (simp add: bcrypt_identify_def)
  have h3: "bcrypt_identify secret_hash"
    by (rule secret_hash_identified)
  from verify_password_result [of "''plaintext''" fixture_check "''wrongpw''"] h1
  have a: "verify_password fixture_check ''wrongpw'' ''plaintext'' = Inl UnknownHashError"
    by blast
  from verify_password_result [of "''$2b$12$pw1''" fixture_check "''pw1''"] h2
  have "verify_password fixture_check ''pw1'' ''$2b$12$pw1'' = fixture_check ''pw1'' ''$2b$12$pw1''"
    by blast
  then have b: "verify_password fixture_check ''pw1'' ''$2b$12$pw1'' = Inl ValueError"
    by (simp add: fixture_check_def)
  from verify_password_result [of secret_hash fixture_check "''wrongpw''"] h3
  have "verify_password fixture_check ''wrongpw'' secret_hash = fixture_check ''wrongpw'' secret_hash"
    by blast
  then have c: "verify_password fixture_check ''wrongpw'' secret_hash = Inr False"
    by (simp add: fixture_check_def secret_hash_identified)
  from h1 a h2 b h3 c show ?thesis
    by blast
qed

subsection \<open>The guard runs before the route\<close>

lemma get_current_user_401:
  assumes "get_current_user verify to_int utcnow request db = Inl e"
  shows "\<exists>d. e = HTTPException 401 d"
  using assms by (auto simp: get_current_user_def split: option.splits if_splits sum.splits)

lemma get_current_user_trades:
  "get_current_user verify to_int utcnow request (db\<lparr>trades := ts\<rparr>) = get_current_user verify to_int utcnow request db"
  by (simp add: get_current_user_def split: option.split sum.split)

lemma header_forged:
  "get_current_user fixture_verify fixture_int 500000 (request_with ''Bearer forged.token'') db_one
     = Inl (HTTPException 401 (Some ''Token invalid''))"
  by (simp add: get_current_user_def request_with_def header_subject_def getitem_def
      decode_subject_def jwt_decode_def fixture_verify_def)

text \<open>
  C9. When the guard fails on a request with an exception \<open>e\<close>, each of the three protected
  routes (create, list, delete) answers \<open>e\<close>, an \<open>HTTPException\<close> with status 401, and
  returns the database it was given; the route function is not run. The trades table is
  not read either: with any other content \<open>ts\<close> of the trades table the answer is the same
  and that table is returned as it was.
\<close>

theorem auth_failure_aborts:
  assumes "get_current_user verify to_int utcnow request db = Inl e"
  shows "api_create_trade verify to_int utcnow request trade db = (db, Inl e)
       \<and> api_read_trades verify to_int utcnow request db = (db, Inl e)
       \<and> api_delete_trade verify to_int utcnow request trade_id db = (db, Inl e)
       \<and> (\<exists>d. e = HTTPException 401 d)
       \<and> api_create_trade verify to_int utcnow request trade (db\<lparr>trades := ts\<rparr>) = (db\<lparr>trades := ts\<rparr>, Inl e)
       \<and> api_read_trades verify to_int utcnow request (db\<lparr>trades := ts\<rparr>) = (db\<lparr>trades := ts\<rparr>, Inl e)
       \<and> api_delete_trade verify to_int utcnow request trade_id (db\<lparr>trades := ts\<rparr>) = (db\<lparr>trades := ts\<rparr>, Inl e)"
proof -
  have "get_current_user verify to_int utcnow request (db\<lparr>trades := ts\<rparr>) = Inl e"
    using assms by (simp add: get_current_user_trades)
  with assms get_current_user_401 [OF assms] show ?thesis
    by (simp add: api_create_trade_def api_read_trades_def api_delete_trade_def)
qed

theorem auth_failure_aborts_witness:
  "get_current_user fixture_verify fixture_int 500000 (request_with ''Bearer forged.token'') db_one
     = Inl (HTTPException 401 (Some ''Token invalid''))
   \<and> api_create_trade fixture_verify fixture_int 500000 (request_with ''Bearer forged.token'') eurusd db_one
     = (db_one, Inl (HTTPException 401 (Some ''Token invalid'')))
   \<and> api_read_trades fixture_verify fixture_int 500000 (request_with ''Bearer forged.token'') db_one
     = (db_one, Inl (HTTPException 401 (Some ''Token invalid'')))
   \<and> api_delete_trade fixture_verify fixture_int 500000 (request_with ''Bearer forged.token'') 1 db_one
     = (db_one, Inl (HTTPException 401 (Some ''Token invalid'')))"
proof -
  note ab = auth_failure_aborts [OF header_forged]
  from ab [of eurusd] have c: "api_create_trade fixture_verify fixture_int 500000 (request_with ''Bearer forged.token'') eurusd db_one
     = (db_one, Inl (HTTPException 401 (Some ''Token invalid'')))"
    by blast
  from ab have r: "api_read_trades fixture_verify fixture_int 500000 (request_with ''Bearer forged.token'') db_one
     = (db_one, Inl (HTTPException 401 (Some ''Token invalid'')))"
    by blast
  from ab [of _ 1] have d: "api_delete_trade fixture_verify fixture_int 500000 (request_with ''Bearer forged.token'') 1 db_one
     = (db_one, Inl (HTTPException 401 (Some ''Token invalid'')))"
    by blast
  from header_forged c r d show ?thesis
    by blast
qed

subsection \<open>The shape of the header\<close>

lemma audience_token_refused:
  "jwt_decode fixture_verify_aud to_int 500000 ''audience.token'' SECRET_KEY [ALGORITHM]
     = Inl JWTClaimsError"
  by (simp add: jwt_decode_def fixture_verify_aud_def validate_defs audience_claims_def timegm_def)

text \<open>
  C10, as stated, fails: a token can be validly signed, unexpired and name an existing user
  and still be refused. The token \<open>audience.token\<close> verifies under the key, its \<open>exp\<close> has not
  passed and its \<open>sub\<close> is alice, a user of \<open>db_one\<close>; it also carries an \<open>aud\<close> claim, which
  \<open>jwt.decode\<close> refuses when no audience is expected. The header \<open>Bearer audience.token\<close>
  does not authenticate.
\<close>

theorem scheme_audience_counterexample:
  "CHR '' '' \<notin> set ''Bearer''
   \<and> CHR '' '' \<notin> set ''audience.token''
   \<and> fixture_verify_aud ''audience.token'' SECRET_KEY [ALGORITHM] = Some audience_claims
   \<and> validate_exp fixture_int 500000 audience_claims = None
   \<and> map_of audience_claims ''sub'' = Some (Str ''alice'')
   \<and> alice \<in> set (users db_one)
   \<and> UserDB.username alice = ''alice''
   \<and> get_current_user fixture_verify_aud fixture_int 500000 (request_with ''Bearer audience.token'') db_one
       = Inl (HTTPException 401 (Some ''Token invalid''))"
proof -
  have signed: "fixture_verify_aud ''audience.token'' SECRET_KEY [ALGORITHM] = Some audience_claims"
    by (simp add: fixture_verify_aud_def)
  have unexpired: "validate_exp fixture_int 500000 audience_claims = None"
    by (simp add: validate_exp_def audience_claims_def timegm_def)
  have subject: "map_of audience_claims ''sub'' = Some (Str ''alice'')"
    by (simp add: audience_claims_def)
  have member: "alice \<in> set (users db_one)" "UserDB.username alice = ''alice''"
    by (simp_all add: db_one_def alice_def)
  have refused: "get_current_user fixture_verify_aud fixture_int 500000
       (request_with ''Bearer audience.token'') db_one
       = Inl (HTTPException 401 (Some ''Token invalid''))"
    by (simp add: get_current_user_def request_with_def header_subject_def getitem_def
        decode_subject_def audience_token_refused)
  from signed unexpired subject member refused show ?thesis
    by simp
qed

text \<open>
  C10, amended. Let the header be \<open>s\<close>, one space, \<open>t\<close>, with no space in \<open>s\<close> or in \<open>t\<close>;
  \<open>s\<close> is any string, the empty one and schemes other than Bearer included. If the
  signature of \<open>t\<close> verifies under the key and the claims of \<open>t\<close> pass every check that
  \<open>jwt.decode\<close> makes at the time of the request (not expired, and also: \<open>iat\<close>, \<open>nbf\<close> and
  \<open>exp\<close> readable as integers, \<open>nbf\<close> not in the future, no \<open>aud\<close> and no \<open>at_hash\<close> claim,
  \<open>sub\<close> and \<open>jti\<close> strings), and the \<open>sub\<close> claim is the name of a user of the database
  (usernames unique), the guard returns that user.
\<close>

theorem scheme_not_inspected:
  assumes "CHR '' '' \<notin> set s"
    and "CHR '' '' \<notin> set t"
    and "headers request ''Authorization'' = Some (s @ '' '' @ t)"
    and "verify t SECRET_KEY [ALGORITHM] = Some payload"
    and "validate_claims to_int utcnow payload = None"
    and "map_of payload ''sub'' = Some (Str name)"
    and "unique_usernames db"
    and "user \<in> set (users db)"
    and "UserDB.username user = name"
  shows "get_current_user verify to_int utcnow request db = Inr user"
proof -
  have "jwt_decode verify to_int utcnow t SECRET_KEY [ALGORITHM] = Inr payload"
    using assms(4,5) by (simp add: jwt_decode_def)
  then have subject: "header_subject verify to_int utcnow (s @ '' '' @ t) = Inr (Str name)"
    using header_two_pieces [OF assms(1,2)] assms(6)
    by (simp add: header_subject_def decode_subject_def)
  have "first (filter (\<lambda>u. UserDB.username u = UserDB.username user) (users db)) = Some user"
    using assms(7,8) unfolding unique_usernames_def by (rule first_filter_unique)
  then have found: "first (filter (\<lambda>u. Str (UserDB.username u) = Str name) (users db)) = Some user"
    using assms(9) by simp
  show ?thesis
    using assms(3) subject found by (simp add: get_current_user_def)
qed

theorem scheme_not_inspected_witness:
  "CHR '' '' \<notin> set ''Basic''
   \<and> CHR '' '' \<notin> set ''alice.token''
   \<and> headers (request_with ''Basic alice.token'') ''Authorization'' = Some (''Basic'' @ '' '' @ ''alice.token'')
   \<and> fixture_verify ''alice.token'' SECRET_KEY [ALGORITHM] = Some alice_claims
   \<and> validate_claims fixture_int 500000 alice_claims = None
   \<and> map_of alice_claims ''sub'' = Some (Str ''alice'')
   \<and> unique_usernames db_one
   \<and> alice \<in> set (users db_one)
   \<and> UserDB.username alice = ''alice''
   \<and> get_current_user fixture_verify fixture_int 500000 (request_with ''Basic alice.token'') db_one = Inr alice"
proof -
  have h1: "CHR '' '' \<notin> set ''Basic''"
    by simp
  have h2: "CHR '' '' \<notin> set ''alice.token''"
    by simp
  have h3: "headers (request_with ''Basic alice.token'') ''Authorization'' = Some (''Basic'' @ '' '' @ ''alice.token'')"
    by (simp add: request_with_def)
  have h4: "fixture_verify ''alice.token'' SECRET_KEY [ALGORITHM] = Some alice_claims"
    by (simp add: fixture_verify_def)
  have h5: "validate_claims fixture_int 500000 alice_claims = None"
    by (simp add: validate_defs alice_claims_def timegm_def)
  have h6: "map_of alice_claims ''sub'' = Some (Str ''alice'')"
    by (simp add: alice_claims_def)
  have h8: "alice \<in> set (users db_one)"
    by (simp add: db_one_def)
  have h9: "UserDB.username alice = ''alice''"
    by (simp add: alice_def)
  from scheme_not_inspected [where verify = fixture_verify, OF h1 h2 h3 h4 h5 h6 db_one_usernames h8 h9]
  have "get_current_user fixture_verify fixture_int 500000 (request_with ''Basic alice.token'') db_one = Inr alice" .
  with h1 h2 h3 h4 h5 h6 db_one_usernames h8 h9 show ?thesis
    by blast
qed

lemma header_extra_pieces_ignored:
  assumes "CHR '' '' \<notin> set s" and "CHR '' '' \<notin> set t"
    and "headers r1 ''Authorization'' = Some (s @ '' '' @ t)"
    and "headers r2 ''Authorization'' = Some (s @ '' '' @ t @ '' '' @ rest)"
  shows "get_current_user verify to_int utcnow r2 db = get_current_user verify to_int utcnow r1 db"
  using header_two_pieces [OF assms(1,2)] header_more_pieces [OF assms(1,2), of rest] assms(3,4)
  by (simp add: get_current_user_def header_subject_def)

text \<open>
  C6, as stated, fails: the header \<open>Bearer alice.token extra\<close> splits into three pieces, not
  into a scheme and a credential, and the guard resolves the user alice from it: only the
  second piece is read.
\<close>

theorem malformed_header_counterexample:
  "str_split CHR '' '' ''Bearer alice.token extra'' = [''Bearer'', ''alice.token'', ''extra'']
   \<and> get_current_user fixture_verify fixture_int 500000 (request_with ''Bearer alice.token extra'') db_one = Inr alice"
  by (simp add: get_current_user_def request_with_def header_subject_def getitem_def
      decode_subject_def alice_token_decodes alice_claims_def db_one_def alice_def bob_def)

text \<open>
  C6, amended. A header value that is present and has no space in it (it splits into fewer
  than two pieces) is refused and no user is resolved: the guard raises \<open>HTTPException 401\<close>,
  with the detail \<open>Token invalid\<close>, the one it has for every failure inside its \<open>try\<close>, or
  \<open>Not authenticated\<close> when the value is the empty string.
\<close>

theorem header_without_space_rejected:
  assumes "headers request ''Authorization'' = Some h"
    and "CHR '' '' \<notin> set h"
  shows "get_current_user verify to_int utcnow request db
       = Inl (HTTPException 401 (Some (if h = [] then ''Not authenticated'' else ''Token invalid'')))"
  using assms(1) header_one_piece [OF assms(2)]
  by (simp add: get_current_user_def header_subject_def)

theorem header_without_space_rejected_witness:
  "headers (request_with ''alice.token'') ''Authorization'' = Some ''alice.token''
   \<and> CHR '' '' \<notin> set ''alice.token''
   \<and> get_current_user fixture_verify fixture_int 500000 (request_with ''alice.token'') db_one
       = Inl (HTTPException 401 (Some ''Token invalid''))"
proof -
  have h1: "headers (request_with ''alice.token'') ''Authorization'' = Some ''alice.token''"
    by (simp add: request_with_def)
  have h2: "CHR '' '' \<notin> set ''alice.token''"
    by simp
  from header_without_space_rejected [OF h1 h2, of fixture_verify fixture_int 500000 db_one]
  have "get_current_user fixture_verify fixture_int 500000 (request_with ''alice.token'') db_one
       = Inl (HTTPException 401 (Some ''Token invalid''))"
    by simp
  with h1 h2 show ?thesis
    by blast
qed

subsection \<open>Issuing and decoding a token\<close>

lemma session_duration: "timedelta_minutes ACCESS_TOKEN_EXPIRE_MINUTES = 60 * 60 * 1000000"
  by (simp add: timedelta_minutes_def ACCESS_TOKEN_EXPIRE_MINUTES_def)

lemma create_access_token_sub:
  "create_access_token sign utcnow [(''sub'', Str u)]
     = Inr (sign [(''sub'', Str u),
                  (''exp'', Num (timegm (utcnow + timedelta_minutes ACCESS_TOKEN_EXPIRE_MINUTES)))]
              SECRET_KEY ALGORITHM)"
  by (simp add: create_access_token_def jwt_encode_def Let_def)

lemma decode_subject_issued:
  assumes "verify token SECRET_KEY [ALGORITHM] = Some [(''sub'', Str u), (''exp'', Num e)]"
  shows "decode_subject verify to_int now token
           = (if e < timegm now then Inl ExpiredSignatureError else Inr (Str u))"
  using assms by (simp add: decode_subject_def jwt_decode_def validate_defs)

lemma timegm_mono: "a \<le> b \<Longrightarrow> timegm a \<le> timegm b"
  unfolding timegm_def by (rule zdiv_mono1) simp_all

lemma timegm_next_second:
  assumes "a + 1000000 \<le> b"
  shows "timegm a < timegm b"
proof -
  from assms have "timegm (a + 1000000) \<le> timegm b"
    by (rule timegm_mono)
  moreover have "timegm (a + 1000000) = timegm a + 1"
    by (simp add: timegm_def)
  ultimately show ?thesis by simp
qed

lemma fixture_round_trip:
  "fixture_verify (fixture_sign alice_claims SECRET_KEY ALGORITHM) SECRET_KEY [ALGORITHM] = Some alice_claims"
  by (simp add: fixture_verify_def fixture_sign_def)

lemma alice_claims_issued:
  "[(''sub'', Str ''alice''),
    (''exp'', Num (timegm (500000 + timedelta_minutes ACCESS_TOKEN_EXPIRE_MINUTES)))] = alice_claims"
  by (simp add: alice_claims_def timegm_def session_duration)

lemma alice_token_issued:
  "create_access_token fixture_sign 500000 [(''sub'', Str ''alice'')] = Inr ''alice.token''"
  by (simp add: create_access_token_sub alice_claims_issued fixture_sign_def)

text \<open>
  C3, as stated, fails in its second half. The token issued for alice half a second after
  the epoch has its expiry instant 3600.5 s after the epoch and carries \<open>exp = 3600\<close>, the
  whole seconds of that instant. At 3600.7 s, after the expiry instant, the clock reads
  3600 whole seconds, \<open>exp < now\<close> is false, and the token still decodes to alice.
\<close>

theorem token_expiry_counterexample:
  "create_access_token fixture_sign 500000 [(''sub'', Str ''alice'')] = Inr ''alice.token''
   \<and> fixture_verify ''alice.token'' SECRET_KEY [ALGORITHM] = Some alice_claims
   \<and> (500000::int) + timedelta_minutes ACCESS_TOKEN_EXPIRE_MINUTES < 3600700000
   \<and> decode_subject fixture_verify fixture_int 3600700000 ''alice.token'' = Inr (Str ''alice'')"
proof -
  have ver: "fixture_verify ''alice.token'' SECRET_KEY [ALGORITHM] = Some alice_claims"
    by (simp add: fixture_verify_def)
  have late: "(500000::int) + timedelta_minutes ACCESS_TOKEN_EXPIRE_MINUTES < 3600700000"
    by (simp add: session_duration)
  have "decode_subject fixture_verify fixture_int 3600700000 ''alice.token''
          = (if 3600 < timegm 3600700000 then Inl ExpiredSignatureError else Inr (Str ''alice''))"
    using ver unfolding alice_claims_def by (rule decode_subject_issued)
  then have dec: "decode_subject fixture_verify fixture_int 3600700000 ''alice.token'' = Inr (Str ''alice'')"
    by (simp add: timegm_def)
  from alice_token_issued ver late dec show ?thesis
    by blast
qed

text \<open>
  C3, amended. Let the signing library return, for the token it signs over the claims
  \<open>sub = u\<close> and \<open>exp\<close>, those claims when the token is verified with the same key and
  algorithm. Then \<open>create_access_token\<close> at the instant \<open>issued\<close> returns a token whose
  expiry instant is \<open>issued\<close> plus 60 minutes and whose \<open>exp\<close> claim is the whole seconds
  of that instant. Decoding it gives exactly \<open>u\<close> at every time strictly before the expiry
  instant, and at every time whose whole seconds do not exceed those of the expiry instant;
  it fails with \<open>ExpiredSignatureError\<close> at every time whose whole seconds exceed them, so at
  every time one second or more after the expiry instant.
\<close>

theorem token_round_trip:
  assumes "verify (sign [(''sub'', Str u),
                         (''exp'', Num (timegm (issued + timedelta_minutes ACCESS_TOKEN_EXPIRE_MINUTES)))]
                     SECRET_KEY ALGORITHM) SECRET_KEY [ALGORITHM]
             = Some [(''sub'', Str u),
                     (''exp'', Num (timegm (issued + timedelta_minutes ACCESS_TOKEN_EXPIRE_MINUTES)))]"
  shows "\<exists>token. create_access_token sign issued [(''sub'', Str u)] = Inr token
       \<and> timedelta_minutes ACCESS_TOKEN_EXPIRE_MINUTES = 60 * 60 * 1000000
       \<and> (now < issued + timedelta_minutes ACCESS_TOKEN_EXPIRE_MINUTES \<longrightarrow>
            decode_subject verify to_int now token = Inr (Str u))
       \<and> (timegm now \<le> timegm (issued + timedelta_minutes ACCESS_TOKEN_EXPIRE_MINUTES) \<longrightarrow>
            decode_subject verify to_int now token = Inr (Str u))
       \<and> (timegm (issued + timedelta_minutes ACCESS_TOKEN_EXPIRE_MINUTES) < timegm now \<longrightarrow>
            decode_subject verify to_int now token = Inl ExpiredSignatureError)
       \<and> (issued + timedelta_minutes ACCESS_TOKEN_EXPIRE_MINUTES + 1000000 \<le> now \<longrightarrow>
            decode_subject verify to_int now token = Inl ExpiredSignatureError)"
proof -
  define expire where "expire = issued + timedelta_minutes ACCESS_TOKEN_EXPIRE_MINUTES"
  define token where "token = sign [(''sub'', Str u), (''exp'', Num (timegm expire))] SECRET_KEY ALGORITHM"
  have made: "create_access_token sign issued [(''sub'', Str u)] = Inr token"
    by (simp add: create_access_token_sub token_def expire_def)
  have "verify token SECRET_KEY [ALGORITHM] = Some [(''sub'', Str u), (''exp'', Num (timegm expire))]"
    using assms by (simp add: token_def expire_def)
  then have dec: "decode_subject verify to_int now token
           = (if timegm expire < timegm now then Inl ExpiredSignatureError else Inr (Str u))"
    by (rule decode_subject_issued)
  have before: "now < expire \<longrightarrow> decode_subject verify to_int now token = Inr (Str u)"
    using dec timegm_mono [of now expire] by auto
  have same_second: "timegm now \<le> timegm expire \<longrightarrow> decode_subject verify to_int now token = Inr (Str u)"
    using dec by auto
  have later_second: "timegm expire < timegm now \<longrightarrow> decode_subject verify to_int now token = Inl ExpiredSignatureError"
    using dec by auto
  have after: "expire + 1000000 \<le> now \<longrightarrow> decode_subject verify to_int now token = Inl ExpiredSignatureError"
    using dec timegm_next_second [of expire now] by auto
  from made session_duration before same_second later_second after show ?thesis
    unfolding expire_def by blast
qed

theorem token_round_trip_witness:
  "fixture_verify (fixture_sign alice_claims SECRET_KEY ALGORITHM) SECRET_KEY [ALGORITHM] = Some alice_claims
   \<and> create_access_token fixture_sign 500000 [(''sub'', Str ''alice'')] = Inr ''alice.token''
   \<and> (3600000000::int) < 500000 + timedelta_minutes ACCESS_TOKEN_EXPIRE_MINUTES
   \<and> decode_subject fixture_verify fixture_int 3600000000 ''alice.token'' = Inr (Str ''alice'')
   \<and> (500000::int) + timedelta_minutes ACCESS_TOKEN_EXPIRE_MINUTES + 1000000 \<le> 3601500000
   \<and> decode_subject fixture_verify fixture_int 3601500000 ''alice.token'' = Inl ExpiredSignatureError"
proof -
  have h: "fixture_verify (fixture_sign [(''sub'', Str ''alice''),
               (''exp'', Num (timegm (500000 + timedelta_minutes ACCESS_TOKEN_EXPIRE_MINUTES)))]
             SECRET_KEY ALGORITHM) SECRET_KEY [ALGORITHM]
          = Some [(''sub'', Str ''alice''),
               (''exp'', Num (timegm (500000 + timedelta_minutes ACCESS_TOKEN_EXPIRE_MINUTES)))]"
    unfolding alice_claims_issued by (rule fixture_round_trip)
  have b: "(3600000000::int) < 500000 + timedelta_minutes ACCESS_TOKEN_EXPIRE_MINUTES"
    by (simp add: session_duration)
  have a: "(500000::int) + timedelta_minutes ACCESS_TOKEN_EXPIRE_MINUTES + 1000000 \<le> 3601500000"
    by (simp add: session_duration)
  from token_round_trip [where verify = fixture_verify and sign = fixture_sign
      and u = "''alice''" and issued = 500000 and now = 3600000000, OF h] alice_token_issued b
  have early: "decode_subject fixture_verify fixture_int 3600000000 ''alice.token'' = Inr (Str ''alice'')"
    by auto
  from token_round_trip [where verify = fixture_verify and sign = fixture_sign
      and u = "''alice''" and issued = 500000 and now = 3601500000, OF h] alice_token_issued a
  have late: "decode_subject fixture_verify fixture_int 3601500000 ''alice.token'' = Inl ExpiredSignatureError"
    by auto
  from fixture_round_trip alice_token_issued b early a late show ?thesis
    by blast
qed

subsection \<open>A session, evaluated\<close>

text \<open>
  The routes run on the small database with the stand-ins: a login with the wrong password
  is refused, the right one returns the token, and with that token alice creates a trade,
  lists it, deletes it and lists nothing.
\<close>

lemma bearer_alice:
  "get_current_user fixture_verify fixture_int 500000 (request_with ''Bearer alice.token'') db =
     (case first (filter (\<lambda>u. UserDB.username u = ''alice'') (users db)) of
        None \<Rightarrow> Inl (HTTPException 401 None) | Some user \<Rightarrow> Inr user)"
  by (simp add: get_current_user_def request_with_def header_subject_def getitem_def
      decode_subject_def alice_token_decodes alice_claims_def)

lemma session_login_wrong:
  "login fixture_check fixture_sign 500000 alice_wrong db_empty
     = Inl (HTTPException 401 (Some ''Incorrect username or password''))"
  by (simp add: login_def db_empty_def alice_def bob_def alice_wrong_def verify_wrong_password)

lemma session_login:
  "login fixture_check fixture_sign 500000 alice_login db_empty
     = Inr (Dict [(''access_token'', ''alice.token''), (''token_type'', ''bearer'')])"
  by (simp add: login_def db_empty_def alice_def bob_def alice_login_def verify_right_password
      alice_token_issued)

lemma session_guard_empty:
  "get_current_user fixture_verify fixture_int 500000 (request_with ''Bearer alice.token'') db_empty = Inr alice"
  by (simp add: bearer_alice db_empty_def alice_def bob_def)

lemma session_guard_one:
  "get_current_user fixture_verify fixture_int 500000 (request_with ''Bearer alice.token'') db_one = Inr alice"
  by (simp add: bearer_alice db_one_def alice_def bob_def)

lemma session_create:
  "api_create_trade fixture_verify fixture_int 500000 (request_with ''Bearer alice.token'') eurusd db_empty
     = (db_one, Inr (Dict [(''status'', ''success'')]))"
  by (simp add: api_create_trade_def session_guard_empty db_one_created)

lemma session_list:
  "api_read_trades fixture_verify fixture_int 500000 (request_with ''Bearer alice.token'') db_one
     = (db_one, Inr (Rows [eurusd_row]))"
  by (simp add: api_read_trades_def session_guard_one)
    (simp add: read_trades_def db_one_def eurusd_row_def alice_def)

lemma session_delete:
  "api_delete_trade fixture_verify fixture_int 500000 (request_with ''Bearer alice.token'') 1 db_one
     = (db_empty, Inr (Dict [(''status'', ''deleted'')]))"
  by (simp add: api_delete_trade_def session_guard_one)
    (simp add: delete_trade_def sqlite_integer_small db_one_def db_empty_def eurusd_row_def alice_def)

lemma session_list_after:
  "api_read_trades fixture_verify fixture_int 500000 (request_with ''Bearer alice.token'') db_empty
     = (db_empty, Inr (Rows []))"
  by (simp add: api_read_trades_def session_guard_empty)
    (simp add: read_trades_def db_empty_def)

end
